theory Spec2Isabelle
  imports Main
begin

section \<open>JavaScript values used by the two endpoints\<close>

text \<open>
  The repository has two modules: the gateway (\<open>src/unnamed/part_000\<close>) and the image
  proxy (\<open>src/api/proxy-img.js\<close>). A JavaScript string is modelled as an Isabelle
  \<open>string\<close>, one \<open>char\<close> per UTF-16 code unit; the model therefore covers the strings
  whose code units are below 256. On those strings the functions below compute what the
  JavaScript built-ins compute.
\<close>

subsection \<open>String.prototype.startsWith, endsWith, includes\<close>

definition startsWith :: "string \<Rightarrow> string \<Rightarrow> bool" where
  "startsWith s t = (take (length t) s = t)"

definition endsWith :: "string \<Rightarrow> string \<Rightarrow> bool" where
  "endsWith s t = (length t \<le> length s \<and> drop (length s - length t) s = t)"

fun includesStr :: "string \<Rightarrow> string \<Rightarrow> bool" where
  "includesStr [] t = (t = [])"
| "includesStr (c # cs) t = (startsWith (c # cs) t \<or> includesStr cs t)"

text \<open>
  \<open>a || b\<close> on a value that is a string or \<open>undefined\<close>/\<open>null\<close>: the left operand is
  taken unless it is falsy, and the empty string is falsy.
\<close>

definition orElse :: "string option \<Rightarrow> string \<Rightarrow> string" where
  "orElse a b = (case a of None \<Rightarrow> b | Some s \<Rightarrow> if s = [] then b else s)"

definition truthy :: "string option \<Rightarrow> bool" where
  "truthy a = (case a of None \<Rightarrow> False | Some s \<Rightarrow> s \<noteq> [])"

subsection \<open>Numbers read by parseInt\<close>

text \<open>
  \<open>parseInt(s, 10)\<close> yields an integer or \<open>NaN\<close>. Every comparison with \<open>NaN\<close> is false.
  (The model reads the digits exactly; a double rounds integers beyond \<open>2^53\<close>.)
\<close>

datatype jsnum = NaN | Num int

fun js_gt :: "jsnum \<Rightarrow> jsnum \<Rightarrow> bool" where
  "js_gt (Num a) (Num b) = (a > b)"
| "js_gt _ _ = False"

fun js_ge :: "jsnum \<Rightarrow> jsnum \<Rightarrow> bool" where
  "js_ge (Num a) (Num b) = (a \<ge> b)"
| "js_ge _ _ = False"

text \<open>The code unit of a character, and the test \<open>a \<le> c \<le> b\<close> on code units.\<close>

definition codeUnit :: "char \<Rightarrow> nat" where
  "codeUnit c = of_char c"

definition between :: "char \<Rightarrow> char \<Rightarrow> char \<Rightarrow> bool" where
  "between a b c = (codeUnit a \<le> codeUnit c \<and> codeUnit c \<le> codeUnit b)"

definition isDigit :: "char \<Rightarrow> bool" where
  "isDigit c = between (CHR ''0'') (CHR ''9'') c"

definition digitVal :: "char \<Rightarrow> int" where
  "digitVal c = int (codeUnit c) - 48"

definition isWhite :: "char \<Rightarrow> bool" where
  "isWhite c = (c \<in> set [CHR 0x09, CHR 0x0A, CHR 0x0B, CHR 0x0C, CHR 0x0D, CHR 0x20, CHR 0xA0])"

definition parseInt10 :: "string \<Rightarrow> jsnum" where
  "parseInt10 s =
     (let t = dropWhile isWhite s;
          neg = (case t of c # _ \<Rightarrow> c = CHR ''-'' | [] \<Rightarrow> False);
          u = (case t of c # cs \<Rightarrow> if c = CHR ''-'' \<or> c = CHR ''+'' then cs else t | [] \<Rightarrow> []);
          ds = takeWhile isDigit u
      in if ds = [] then NaN
         else let n = foldl (\<lambda>a c. 10 * a + digitVal c) 0 ds
              in Num (if neg then - n else n))"

section \<open>Regular expressions\<close>

text \<open>
  The four patterns of the source use literals, character ranges, \<open>.\<close>, the anchors
  \<open>^\<close> and \<open>$\<close>, sequence, alternation and the quantifiers \<open>?\<close>, \<open>*\<close>, \<open>+\<close>,
  \<open>{n}\<close>, \<open>{n,m}\<close>. In a JavaScript pattern alternation binds weakest, so an anchor
  belongs to the alternative it is written in.
\<close>

datatype rx =
    Lits string
  | Range char char
  | Dot
  | Bol
  | Eol
  | Seq rx rx
  | Alt rx rx
  | Rep nat "nat option" rx

text \<open>
  A position is the input still to be read, with a flag telling whether it is the start
  of the input. \<open>rxm ic r p\<close> lists the positions at which a match of \<open>r\<close> begun at \<open>p\<close>
  can end; \<open>ic\<close> is the \<open>i\<close> flag, which the source sets only on patterns whose
  letters are literals. Under it two code units below 256 match when they are equal or are
  the same ASCII letter in either case.
\<close>

type_synonym pos = "bool \<times> string"

definition lowerChar :: "char \<Rightarrow> char" where
  "lowerChar c = (if between (CHR ''A'') (CHR ''Z'') c then char_of (codeUnit c + 32) else c)"

definition sameChar :: "bool \<Rightarrow> char \<Rightarrow> char \<Rightarrow> bool" where
  "sameChar ic a b = (if ic then lowerChar a = lowerChar b else a = b)"

fun litsAt :: "bool \<Rightarrow> string \<Rightarrow> string \<Rightarrow> string option" where
  "litsAt ic [] s = Some s"
| "litsAt ic (c # cs) [] = None"
| "litsAt ic (c # cs) (x # xs) = (if sameChar ic c x then litsAt ic cs xs else None)"

definition lineTerminator :: "char \<Rightarrow> bool" where
  "lineTerminator c = (c = CHR 0x0A \<or> c = CHR 0x0D)"

definition decr :: "nat option \<Rightarrow> nat option" where
  "decr hi = (case hi of None \<Rightarrow> None | Some h \<Rightarrow> Some (h - 1))"

text \<open>
  Repetition: each further round must consume input (every quantified sub-pattern of the
  source does), so as many rounds as characters are left suffice.
\<close>

fun reps :: "nat \<Rightarrow> (pos \<Rightarrow> pos list) \<Rightarrow> nat \<Rightarrow> nat option \<Rightarrow> pos \<Rightarrow> pos list" where
  "reps 0 f lo hi p = (if lo = 0 then [p] else [])"
| "reps (Suc k) f lo hi p =
     (if lo = 0 then [p] else []) @
     (if hi = Some 0 then []
      else concat (map (reps k f (lo - 1) (decr hi))
             (filter (\<lambda>q. length (snd q) < length (snd p)) (f p))))"

primrec rxm :: "bool \<Rightarrow> rx \<Rightarrow> pos \<Rightarrow> pos list" where
  "rxm ic (Lits cs) p =
     (case litsAt ic cs (snd p) of
        None \<Rightarrow> []
      | Some rest \<Rightarrow> [(fst p \<and> cs = [], rest)])"
| "rxm ic (Range a b) p =
     (case snd p of
        [] \<Rightarrow> []
      | x # xs \<Rightarrow> if between a b x then [(False, xs)] else [])"
| "rxm ic Dot p =
     (case snd p of
        [] \<Rightarrow> []
      | x # xs \<Rightarrow> if lineTerminator x then [] else [(False, xs)])"
| "rxm ic Bol p = (if fst p then [p] else [])"
| "rxm ic Eol p = (if snd p = [] then [p] else [])"
| "rxm ic (Seq r1 r2) p = concat (map (rxm ic r2) (rxm ic r1 p))"
| "rxm ic (Alt r1 r2) p = rxm ic r1 p @ rxm ic r2 p"
| "rxm ic (Rep lo hi r) p = reps (length (snd p)) (rxm ic r) lo hi p"

text \<open>\<open>RegExp.prototype.test\<close> (no \<open>g\<close> or \<open>y\<close> flag): a match may begin anywhere.\<close>

fun searchFrom :: "bool \<Rightarrow> rx \<Rightarrow> pos \<Rightarrow> bool" where
  "searchFrom ic r (b, []) = (rxm ic r (b, []) \<noteq> [])"
| "searchFrom ic r (b, x # xs) = (rxm ic r (b, x # xs) \<noteq> [] \<or> searchFrom ic r (False, xs))"

definition test :: "bool \<Rightarrow> rx \<Rightarrow> string \<Rightarrow> bool" where
  "test ic r s = searchFrom ic r (True, s)"

definition seqs :: "rx list \<Rightarrow> rx" where
  "seqs rs = foldr Seq rs (Lits [])"

definition alts :: "rx \<Rightarrow> rx list \<Rightarrow> rx" where
  "alts r rs = foldl Alt r rs"

definition digit :: rx where
  "digit = Range (CHR ''0'') (CHR ''9'')"

section \<open>Rate limiter (both modules, lines 36 to 52)\<close>

text \<open>
  \<open>ipRequestCounts\<close> is a \<open>Map\<close> from identifier to an array of timestamps;
  \<open>Date.now()\<close> is the parameter \<open>now\<close>, and \<open>RATE_LIMIT_PER_MIN\<close> the parameter
  \<open>lim\<close> (the result of a \<open>parseInt\<close>).
\<close>

type_synonym counts = "string \<rightharpoonup> int list"

definition RATE_LIMIT_WINDOW_MS :: int where
  "RATE_LIMIT_WINDOW_MS = 60 * 1000"

text \<open>\<open>ipRequestCounts.get(ip) || []\<close>\<close>

definition requestsOf :: "counts \<Rightarrow> string \<Rightarrow> int list" where
  "requestsOf m ip = (case m ip of None \<Rightarrow> [] | Some requests \<Rightarrow> requests)"

definition recentRequests :: "int \<Rightarrow> string \<Rightarrow> counts \<Rightarrow> int list" where
  "recentRequests now ip m =
     filter (\<lambda>timestamp. now - timestamp < RATE_LIMIT_WINDOW_MS) (requestsOf m ip)"

definition isRateLimited :: "jsnum \<Rightarrow> int \<Rightarrow> string \<Rightarrow> counts \<Rightarrow> bool \<times> counts" where
  "isRateLimited lim now ip m =
     (let recent = recentRequests now ip m
      in if js_ge (Num (int (length recent))) lim then (True, m)
         else (False, m(ip \<mapsto> recent @ [now])))"

text \<open>A sequence of calls, each at its own time and for its own identifier.\<close>

fun calls :: "jsnum \<Rightarrow> (int \<times> string) list \<Rightarrow> counts \<Rightarrow> bool list \<times> counts" where
  "calls lim [] m = ([], m)"
| "calls lim ((now, ip) # cs) m =
     (let (b, m1) = isRateLimited lim now ip m;
          (bs, m2) = calls lim cs m1
      in (b # bs, m2))"

section \<open>Image proxy: private targets (proxy-img.js, lines 59 to 76)\<close>

text \<open>\<open>\.[0-9]+\<close>, which the private-address pattern repeats.\<close>

definition dotNumber :: rx where
  "dotNumber = Seq (Lits ''.'') (Rep 1 None digit)"

text \<open>\<open>/^(?:[0-9]{1,3}\.){3}[0-9]{1,3}$/\<close>\<close>

definition ipRegex :: rx where
  "ipRegex =
     seqs [Bol, Rep 3 (Some 3) (Seq (Rep 1 (Some 3) digit) (Lits ''.'')),
           Rep 1 (Some 3) digit, Eol]"

text \<open>
  \<open>/^(::1)|(127(?:\.[0-9]+){0,2}\.[0-9]+)|(10(?:\.[0-9]+){0,2}\.[0-9]+)|\<close>
  \<open>(172\.(?:1[6-9]|2[0-9]|3[0-1])(?:\.[0-9]+){0,2}\.[0-9]+)|(192\.168(?:\.[0-9]+){0,2}\.[0-9]+)$/\<close>:
  five alternatives, \<open>^\<close> written in the first and \<open>$\<close> in the last.
\<close>

definition privateIpRegex :: rx where
  "privateIpRegex =
     alts (Seq Bol (Lits ''::1''))
       [seqs [Lits ''127'', Rep 0 (Some 2) dotNumber, dotNumber],
        seqs [Lits ''10'', Rep 0 (Some 2) dotNumber, dotNumber],
        seqs [Lits ''172.'',
              alts (Seq (Lits ''1'') (Range (CHR ''6'') (CHR ''9'')))
                [Seq (Lits ''2'') (Range (CHR ''0'') (CHR ''9'')),
                 Seq (Lits ''3'') (Range (CHR ''0'') (CHR ''1''))],
              Rep 0 (Some 2) dotNumber, dotNumber],
        Seq (seqs [Lits ''192.168'', Rep 0 (Some 2) dotNumber, dotNumber]) Eol]"

definition isPrivateTarget :: "string \<Rightarrow> bool" where
  "isPrivateTarget hostname =
     (if test False ipRegex hostname \<and> test False privateIpRegex hostname then True
      else if hostname = ''localhost'' \<or> endsWith hostname ''.local''
              \<or> endsWith hostname ''.internal'' then True
      else False)"

section \<open>Gateway: URL rewriting (part_000, lines 57 to 113)\<close>

text \<open>\<open>/\.(jpg|jpeg|png|webp|avif|gif|svg)(\?.*)?$/i\<close>\<close>

definition IMAGE_EXTENSIONS :: rx where
  "IMAGE_EXTENSIONS =
     seqs [Lits ''.'',
           alts (Lits ''jpg'') [Lits ''jpeg'', Lits ''png'', Lits ''webp'', Lits ''avif'',
                                 Lits ''gif'', Lits ''svg''],
           Rep 0 (Some 1) (Seq (Lits ''?'') (Rep 0 None Dot)),
           Eol]"

text \<open>\<open>/(\/uploads\/|\/wp-content\/uploads\/)/i\<close>\<close>

definition UPLOAD_HEURISTICS :: rx where
  "UPLOAD_HEURISTICS = Alt (Lits ''/uploads/'') (Lits ''/wp-content/uploads/'')"

subsection \<open>encodeURIComponent\<close>

text \<open>
  Letters, digits and \<open>- _ . ! ~ * ' ( )\<close> stay; every other code unit is written as the
  bytes of its UTF-8 encoding, each as \<open>%XX\<close>. A code unit below 256 has one byte when
  below 128 and two otherwise.
\<close>

definition unreserved :: "char \<Rightarrow> bool" where
  "unreserved c =
     (between (CHR ''A'') (CHR ''Z'') c \<or> between (CHR ''a'') (CHR ''z'') c
      \<or> between (CHR ''0'') (CHR ''9'') c \<or> c \<in> set ''-_.!~*'()'')"

definition hexDigit :: "nat \<Rightarrow> char" where
  "hexDigit n = ''0123456789ABCDEF'' ! (n mod 16)"

definition percent :: "nat \<Rightarrow> string" where
  "percent b = [CHR ''%'', hexDigit (b div 16), hexDigit b]"

definition utf8 :: "char \<Rightarrow> nat list" where
  "utf8 c = (if codeUnit c < 128 then [codeUnit c] else [192 + codeUnit c div 64, 128 + codeUnit c mod 64])"

definition encodeURIComponent :: "string \<Rightarrow> string" where
  "encodeURIComponent s =
     concat (map (\<lambda>c. if unreserved c then [c] else concat (map percent (utf8 c))) s)"

subsection \<open>The tree and its traversal\<close>

text \<open>
  What \<open>JSON.parse\<close> returns. Numbers are carried and never inspected, so their type is
  a parameter. An object is the list of its own properties; the tree has no sharing, so
  the in-place update of the source is the tree returned here.
\<close>

datatype 'n json =
    JNull
  | JBool bool
  | JNumber 'n
  | JString string
  | JArray "'n json list"
  | JObject "(string \<times> 'n json) list"

text \<open>
  Lines 77 to 94: the string under test and the flag \<open>needsRewrite\<close>. An origin-relative
  value is first replaced by its resolution, and the second test reads the replaced value.
\<close>

definition absoluteUrl :: "string \<Rightarrow> bool" where
  "absoluteUrl u = (startsWith u ''http://'' \<or> startsWith u ''https://'')"

definition resolved :: "string \<Rightarrow> string \<Rightarrow> string" where
  "resolved upstreamOrigin v = (if startsWith v ''/'' then upstreamOrigin @ v else v)"

definition needsRewrite :: "string \<Rightarrow> string \<Rightarrow> bool" where
  "needsRewrite upstreamOrigin v =
     (let originalUrl = resolved upstreamOrigin v;
          step1 = (startsWith v ''/'' \<and> test True UPLOAD_HEURISTICS originalUrl);
          step2 = (absoluteUrl originalUrl \<and>
                   (test True IMAGE_EXTENSIONS originalUrl \<or> test True UPLOAD_HEURISTICS originalUrl))
      in step1 \<or> step2)"

text \<open>
  Lines 97 to 105. \<open>new URL(originalUrl)\<close> belongs to the platform: \<open>validUrl\<close> tells
  whether it returns (rather than throws).
\<close>

definition rewriteString :: "(string \<Rightarrow> bool) \<Rightarrow> string \<Rightarrow> string \<Rightarrow> string" where
  "rewriteString validUrl upstreamOrigin v =
     (if needsRewrite upstreamOrigin v \<and> validUrl (resolved upstreamOrigin v)
      then ''/api/proxy-img?url='' @ encodeURIComponent (resolved upstreamOrigin v)
      else v)"

fun recursiveRewrite :: "(string \<Rightarrow> bool) \<Rightarrow> string \<Rightarrow> 'n json \<Rightarrow> 'n json" where
  "recursiveRewrite validUrl upstreamOrigin (JArray items) =
     JArray (map (recursiveRewrite validUrl upstreamOrigin) items)"
| "recursiveRewrite validUrl upstreamOrigin (JObject props) =
     JObject (map (\<lambda>kv. (fst kv,
        (case snd kv of
           JString s \<Rightarrow> JString (rewriteString validUrl upstreamOrigin s)
         | JArray xs \<Rightarrow> recursiveRewrite validUrl upstreamOrigin (snd kv)
         | JObject ps \<Rightarrow> recursiveRewrite validUrl upstreamOrigin (snd kv)
         | other \<Rightarrow> other))) props)"
| "recursiveRewrite validUrl upstreamOrigin other = other"

text \<open>
  A place in a tree: the indices of the properties and array elements to walk through
  from the root. \<open>subtreeAt t p\<close> is the value found there, if the path exists in \<open>t\<close>.
\<close>

datatype step = Prop nat | Elem nat

fun subtreeAt :: "'n json \<Rightarrow> step list \<Rightarrow> 'n json option" where
  "subtreeAt t [] = Some t"
| "subtreeAt (JObject props) (Prop i # p) =
     (if i < length props then subtreeAt (snd (props ! i)) p else None)"
| "subtreeAt (JArray items) (Elem i # p) =
     (if i < length items then subtreeAt (items ! i) p else None)"
| "subtreeAt t (s # p) = None"

section \<open>Requests, responses and the platform\<close>

subsection \<open>Object literals of strings\<close>

text \<open>
  A header object is the list of its properties in insertion order. \<open>setProp\<close> is the
  assignment \<open>obj[k] = v\<close>, \<open>spread a b\<close> the literal \<open>{...a, ...b}\<close>.
\<close>

type_synonym headers = "(string \<times> string) list"

fun setProp :: "string \<Rightarrow> string \<Rightarrow> headers \<Rightarrow> headers" where
  "setProp k v [] = [(k, v)]"
| "setProp k v (p # ps) = (if fst p = k then (k, v) # ps else p # setProp k v ps)"

definition spread :: "headers \<Rightarrow> headers \<Rightarrow> headers" where
  "spread a b = foldl (\<lambda>h p. setProp (fst p) (snd p) h) a b"

subsection \<open>JSON.stringify on the handlers' own object literals\<close>

datatype lit = B bool | S string | N nat

fun showNat :: "nat \<Rightarrow> string" where
  "showNat n =
     (if n < 10 then [char_of (48 + n)]
      else showNat (n div 10) @ [char_of (48 + n mod 10)])"

declare showNat.simps [simp del]

text \<open>
  A number inside a template string. Every digit is printed; JavaScript switches to
  exponent form from \<open>1e21\<close> on, which no configured limit of the source comes near.
\<close>

definition showNum :: "jsnum \<Rightarrow> string" where
  "showNum x =
     (case x of
        NaN \<Rightarrow> ''NaN''
      | Num i \<Rightarrow> if i < 0 then ''-'' @ showNat (nat (- i)) else showNat (nat i))"

definition lowerHex :: "nat \<Rightarrow> char" where
  "lowerHex n = ''0123456789abcdef'' ! (n mod 16)"

definition quoteChar :: "char \<Rightarrow> string" where
  "quoteChar c =
     (if c = CHR 0x22 then [CHR 0x5C, CHR 0x22]
      else if c = CHR 0x5C then [CHR 0x5C, CHR 0x5C]
      else if c = CHR 0x08 then [CHR 0x5C, CHR ''b'']
      else if c = CHR 0x09 then [CHR 0x5C, CHR ''t'']
      else if c = CHR 0x0A then [CHR 0x5C, CHR ''n'']
      else if c = CHR 0x0C then [CHR 0x5C, CHR ''f'']
      else if c = CHR 0x0D then [CHR 0x5C, CHR ''r'']
      else if codeUnit c < 32 then [CHR 0x5C, CHR ''u'', CHR ''0'', CHR ''0'',
                                lowerHex (codeUnit c div 16), lowerHex (codeUnit c)]
      else [c])"

definition quote :: "string \<Rightarrow> string" where
  "quote s = [CHR 0x22] @ concat (map quoteChar s) @ [CHR 0x22]"

definition showLit :: "lit \<Rightarrow> string" where
  "showLit v = (case v of B b \<Rightarrow> if b then ''true'' else ''false'' | S s \<Rightarrow> quote s | N n \<Rightarrow> showNat n)"

fun commas :: "string list \<Rightarrow> string" where
  "commas [] = []"
| "commas [x] = x"
| "commas (x # y # ys) = x @ '','' @ commas (y # ys)"

definition stringifyLit :: "(string \<times> lit) list \<Rightarrow> string" where
  "stringifyLit props =
     ''{'' @ commas (map (\<lambda>p. quote (fst p) @ '':'' @ showLit (snd p)) props) @ ''}''"

subsection \<open>The incoming request\<close>

text \<open>
  The request headers the handlers read, the socket address, and the query parameters
  of \<open>req.url\<close> (\<open>searchParams.get\<close> returns the first value of a name). The parse
  of \<open>req.url\<close> itself and the \<open>console\<close> calls are left out: the first is taken to
  succeed, the second write nothing to the response.
\<close>

record request =
  "method" :: string
  x_forwarded_for :: "string option"
  remoteAddress :: "string option"
  accept :: "string option"
  authorization :: "string option"
  content_type :: "string option"
  searchParams :: "(string \<times> string) list"

definition getIp :: "request \<Rightarrow> string" where
  "getIp req = orElse (x_forwarded_for req) (orElse (remoteAddress req) ''unknown'')"

subsection \<open>The upstream response\<close>

text \<open>
  A body is a stream: the chunks it delivers, and whether it then fails instead of
  closing. \<open>Headers\<close> keeps its names in lower case. An exception carries its
  message; the messages of the platform's own errors are stand-ins, no branch of the
  source reads them.
\<close>

datatype stream = Stream "string list" bool

record response =
  status :: nat
  rheaders :: headers
  body :: "stream option"

datatype exn = Thrown string

definition message :: "exn \<Rightarrow> string" where
  "message e = (case e of Thrown m \<Rightarrow> m)"

definition hget :: "response \<Rightarrow> string \<Rightarrow> string option" where
  "hget r name = map_of (rheaders r) name"

definition ok :: "response \<Rightarrow> bool" where
  "ok r = (200 \<le> status r \<and> status r \<le> 299)"

text \<open>\<open>response.text()\<close>: the whole body, or the stream's failure.\<close>

definition text_of :: "response \<Rightarrow> exn + string" where
  "text_of r =
     (case body r of
        None \<Rightarrow> Inr []
      | Some (Stream cs fails) \<Rightarrow> if fails then Inl (Thrown ''terminated'') else Inr (concat cs))"

text \<open>\<open>Buffer.byteLength(text, 'utf8')\<close>\<close>

definition byteLength :: "string \<Rightarrow> nat" where
  "byteLength s = length (concat (map utf8 s))"

text \<open>
  \<open>new Response(text, init)\<close> with a response as \<open>init\<close>: its status and headers are
  read; a status outside 200 to 599 and a body on a null-body status are rejected; a
  content type is added only when the headers have none.
\<close>

definition newResponse :: "string \<Rightarrow> response \<Rightarrow> exn + response" where
  "newResponse t init =
     (if status init < 200 \<or> 599 < status init then Inl (Thrown ''RangeError'')
      else if status init \<in> set [101, 103, 204, 205, 304] then Inl (Thrown ''TypeError'')
      else Inr \<lparr> status = status init,
                 rheaders = (if hget init ''content-type'' = None
                             then rheaders init @ [(''content-type'', ''text/plain;charset=UTF-8'')]
                             else rheaders init),
                 body = Some (Stream (if t = [] then [] else [t]) False) \<rparr>)"

subsection \<open>The server response\<close>

text \<open>
  \<open>res\<close>: the status line and headers once \<open>writeHead\<close> has run, the chunks written,
  and whether \<open>end\<close> has run. A second \<open>writeHead\<close> throws \<open>ERR_HTTP_HEADERS_SENT\<close>.
  A function that acts on \<open>res\<close> returns the new \<open>res\<close> and the exception it threw, if
  any.
\<close>

record res =
  head :: "(nat \<times> headers) option"
  written :: "string list"
  ended :: bool

definition res0 :: res where
  "res0 = \<lparr> head = None, written = [], ended = False \<rparr>"

definition writeHead :: "nat \<Rightarrow> headers \<Rightarrow> res \<Rightarrow> res \<times> exn option" where
  "writeHead st hs r =
     (if head r \<noteq> None then (r, Some (Thrown ''ERR_HTTP_HEADERS_SENT''))
      else (r\<lparr>head := Some (st, hs)\<rparr>, None))"

definition writeChunk :: "string \<Rightarrow> res \<Rightarrow> res" where
  "writeChunk chunk r = (if ended r then r else r\<lparr>written := written r @ [chunk]\<rparr>)"

definition endRes :: "string option \<Rightarrow> res \<Rightarrow> res" where
  "endRes d r =
     (if ended r then r
      else r\<lparr>written := written r @ (case d of None \<Rightarrow> [] | Some x \<Rightarrow> [x]), ended := True\<rparr>)"

text \<open>\<open>res.writeHead(st, hs); res.end(d)\<close>\<close>

definition respond :: "nat \<Rightarrow> headers \<Rightarrow> string option \<Rightarrow> res \<Rightarrow> res \<times> exn option" where
  "respond st hs d r =
     (case writeHead st hs r of
        (r1, Some e) \<Rightarrow> (r1, Some e)
      | (r1, None) \<Rightarrow> (endRes d r1, None))"

text \<open>
  \<open>body.pipeTo(new WritableStream({write, close, abort}))\<close>: every chunk is written;
  a stream that closes ends \<open>res\<close>; one that fails aborts the sink, which ends \<open>res\<close>,
  and the promise rejects.
\<close>

definition pipeTo :: "stream \<Rightarrow> res \<Rightarrow> res \<times> exn option" where
  "pipeTo s r =
     (case s of Stream cs fails \<Rightarrow>
        (endRes None (foldl (\<lambda>r1 c. writeChunk c r1) r cs),
         if fails then Some (Thrown ''stream error'') else None))"

subsection \<open>What the platform provides\<close>

text \<open>
  \<open>fetch\<close> (a response, or the error it rejects with), \<open>new URL\<close> (the parsed
  protocol and hostname, or nothing when it throws), \<open>JSON.parse\<close> (nothing when it
  throws) and \<open>JSON.stringify\<close> are not code of the repository: they are parameters.
\<close>

record fetchOptions =
  fmethod :: string
  fheaders :: headers
  streamsBody :: bool

record url =
  protocol :: string
  hostname :: string

record 'n platform =
  fetch :: "string \<Rightarrow> fetchOptions \<Rightarrow> exn + response"
  newURL :: "string \<Rightarrow> url option"
  JSON_parse :: "string \<Rightarrow> 'n json option"
  JSON_stringify :: "'n json \<Rightarrow> string"

text \<open>What a handler did besides writing to \<open>res\<close>.\<close>

datatype event = Fetch string fetchOptions | Parse string | Rewrite

record outcome =
  response_written :: res
  thrown :: "exn option"
  counts_after :: counts
  trace :: "event list"

subsection \<open>Configuration read from the environment\<close>

text \<open>
  Each number is the result of a \<open>parseInt\<close> on an environment variable or on its
  default; \<open>ALLOWED_HOSTS_CSV\<close> is the variable itself, or the empty string.
\<close>

record config =
  RATE_LIMIT_PER_MIN :: jsnum
  MAX_JSON_SIZE_BYTES :: jsnum
  IMAGE_MAX_BYTES :: jsnum
  ALLOWED_HOSTS_CSV :: string

definition defaults :: config where
  "defaults = \<lparr> RATE_LIMIT_PER_MIN = parseInt10 ''60'',
                 MAX_JSON_SIZE_BYTES = parseInt10 ''2097152'',
                 IMAGE_MAX_BYTES = parseInt10 ''10485760'',
                 ALLOWED_HOSTS_CSV = [] \<rparr>"

definition finish :: "res \<times> exn option \<Rightarrow> counts \<Rightarrow> event list \<Rightarrow> outcome" where
  "finish re m tr =
     \<lparr> response_written = fst re, thrown = snd re, counts_after = m, trace = tr \<rparr>"

section \<open>Gateway handler (part_000, lines 122 to 260)\<close>

definition UPSTREAM_BASE :: string where
  "UPSTREAM_BASE = ''https://www.sankavollerei.com/comic''"

text \<open>
  \<open>new URL(targetUrl).origin\<close>: every target begins with \<open>UPSTREAM_BASE\<close> and a
  slash, so its origin is this constant.
\<close>

definition UPSTREAM_ORIGIN :: string where
  "UPSTREAM_ORIGIN = ''https://www.sankavollerei.com''"

definition CORS_HEADERS :: headers where
  "CORS_HEADERS =
     [(''Access-Control-Allow-Origin'', ''*''),
      (''Access-Control-Allow-Methods'', ''GET, POST, OPTIONS''),
      (''Access-Control-Allow-Headers'', ''Content-Type, Authorization, Origin, Accept'')]"

definition streamPassthrough :: "response \<Rightarrow> res \<Rightarrow> headers \<Rightarrow> res \<times> exn option" where
  "streamPassthrough upstreamResponse r extraHeaders =
     (let headers0 = spread CORS_HEADERS extraHeaders;
          headers1 = setProp ''Content-Type''
            (orElse (hget upstreamResponse ''content-type'') ''application/octet-stream'') headers0;
          headers2 = (case hget upstreamResponse ''content-length'' of
                        None \<Rightarrow> headers1
                      | Some v \<Rightarrow> setProp ''Content-Length'' v headers1)
      in case writeHead (status upstreamResponse) headers2 r of
           (r1, Some e) \<Rightarrow> (r1, Some e)
         | (r1, None) \<Rightarrow>
             (case body upstreamResponse of
                Some s \<Rightarrow>
                  (case pipeTo s r1 of
                     (r2, Some streamError) \<Rightarrow> (endRes None r2, None)
                   | (r2, None) \<Rightarrow> (r2, None))
              | None \<Rightarrow> (endRes None r1, None)))"

text \<open>Lines 192 to 208.\<close>

definition gatewayFetchOptions :: "request \<Rightarrow> fetchOptions" where
  "gatewayFetchOptions req =
     (let hs0 = [(''User-Agent'', ''KynayMicProxy/1.0''),
                 (''Accept'', ''application/json, text/*, */*'')];
          hs1 = (if truthy (authorization req)
                 then setProp ''Authorization'' (orElse (authorization req) []) hs0 else hs0);
          streams = (method req \<noteq> ''GET'' \<and> method req \<noteq> ''HEAD'' \<and> truthy (content_type req))
      in \<lparr> fmethod = method req,
           fheaders = (if streams then setProp ''Content-Type'' (orElse (content_type req) []) hs1
                       else hs1),
           streamsBody = streams \<rparr>)"

definition jsonHeaders :: "headers \<Rightarrow> headers" where
  "jsonHeaders cors = setProp ''Content-Type'' ''application/json'' cors"

text \<open>The \<open>try\<close> block, lines 190 to 254.\<close>

definition forward ::
  "config \<Rightarrow> 'n platform \<Rightarrow> request \<Rightarrow> string \<Rightarrow> res \<Rightarrow> (res \<times> exn option) \<times> event list" where
  "forward cfg pf req targetUrl r =
     (let fetchOpts = gatewayFetchOptions req in
      case fetch pf targetUrl fetchOpts of
        Inl e \<Rightarrow> ((r, Some e), [Fetch targetUrl fetchOpts])
      | Inr upstreamResponse \<Rightarrow>
          (let upstreamContentType = orElse (hget upstreamResponse ''content-type'') [] in
           if includesStr upstreamContentType ''application/json'' then
             (case text_of upstreamResponse of
                Inl e \<Rightarrow> ((r, Some e), [Fetch targetUrl fetchOpts])
              | Inr t \<Rightarrow>
                  if js_gt (Num (int (byteLength t))) (MAX_JSON_SIZE_BYTES cfg) then
                    (respond 502 (jsonHeaders CORS_HEADERS)
                       (Some (stringifyLit
                          [(''success'', B False),
                           (''error'', S ''Upstream response too large to parse''),
                           (''code'', N 502),
                           (''rewrote'', B False)])) r,
                     [Fetch targetUrl fetchOpts])
                  else
                    (case JSON_parse pf t of
                       None \<Rightarrow>
                         ((case newResponse t upstreamResponse of
                             Inl e \<Rightarrow> (r, Some e)
                           | Inr wrapped \<Rightarrow>
                               streamPassthrough wrapped r
                                 [(''Content-Type'', ''text/plain; charset=utf-8'')]),
                          [Fetch targetUrl fetchOpts, Parse t])
                     | Some data \<Rightarrow>
                         (respond (status upstreamResponse)
                            (setProp ''Content-Type'' ''application/json; charset=utf-8'' CORS_HEADERS)
                            (Some (JSON_stringify pf
                               (recursiveRewrite (\<lambda>u. newURL pf u \<noteq> None) UPSTREAM_ORIGIN data))) r,
                          [Fetch targetUrl fetchOpts, Parse t, Rewrite])))
           else (streamPassthrough upstreamResponse r [], [Fetch targetUrl fetchOpts])))"

definition handler :: "config \<Rightarrow> 'n platform \<Rightarrow> int \<Rightarrow> request \<Rightarrow> counts \<Rightarrow> outcome" where
  "handler cfg pf now req m =
     (if method req = ''OPTIONS'' then finish (respond 204 CORS_HEADERS None res0) m []
      else
        case isRateLimited (RATE_LIMIT_PER_MIN cfg) now (getIp req) m of
          (True, m1) \<Rightarrow>
            finish (respond 429 (jsonHeaders CORS_HEADERS)
              (Some (stringifyLit
                 [(''success'', B False), (''error'', S ''Rate limit exceeded''), (''code'', N 429)]))
              res0) m1 []
        | (False, m1) \<Rightarrow>
            (let restPath = map_of (searchParams req) ''rest'' in
             if \<not> truthy restPath \<or> \<not> startsWith (orElse restPath []) ''komikstation/'' then
               finish (respond 400 (jsonHeaders CORS_HEADERS)
                 (Some (stringifyLit
                    [(''success'', B False),
                     (''error'', S ''Invalid endpoint. Must start with komikstation/''),
                     (''code'', N 400)]))
                 res0) m1 []
             else
               (let targetUrl = UPSTREAM_BASE @ ''/'' @ orElse restPath [] in
                case forward cfg pf req targetUrl res0 of
                  ((r1, Some error), tr) \<Rightarrow>
                    finish (respond 502 (jsonHeaders CORS_HEADERS)
                      (Some (stringifyLit
                         [(''success'', B False),
                          (''error'', S ''Failed to fetch from upstream''),
                          (''code'', N 502),
                          (''details'', S (message error))]))
                      r1) m1 tr
                | ((r1, None), tr) \<Rightarrow> finish (r1, None) m1 tr)))"

section \<open>Image handler (proxy-img.js, lines 83 to 204)\<close>

definition PLACEHOLDER_URL :: string where
  "PLACEHOLDER_URL = ''https://placehold.co/300x400/FFF9E0/000?text=Image+Error''"

definition CORS_HEADERS_img :: headers where
  "CORS_HEADERS_img =
     [(''Access-Control-Allow-Origin'', ''*''),
      (''Access-Control-Allow-Methods'', ''GET, OPTIONS''),
      (''Access-Control-Allow-Headers'', ''Content-Type, Authorization, Origin, Accept'')]"

text \<open>\<open>csv.split(',')\<close>\<close>

fun splitComma :: "string \<Rightarrow> string \<Rightarrow> string list" where
  "splitComma cur [] = [cur]"
| "splitComma cur (c # cs) =
     (if c = CHR '','' then cur # splitComma [] cs else splitComma (cur @ [c]) cs)"

definition ALLOWED_HOSTS :: "config \<Rightarrow> string list option" where
  "ALLOWED_HOSTS cfg =
     (if ALLOWED_HOSTS_CSV cfg = [] then None else Some (splitComma [] (ALLOWED_HOSTS_CSV cfg)))"

definition sendError :: "request \<Rightarrow> res \<Rightarrow> nat \<Rightarrow> string \<Rightarrow> res \<times> exn option" where
  "sendError req r statusCode msg =
     (let acceptHeader = orElse (accept req) [] in
      if includesStr acceptHeader ''image/'' \<and> \<not> includesStr acceptHeader ''application/json''
      then respond 302 (setProp ''Location'' PLACEHOLDER_URL CORS_HEADERS_img) None r
      else respond statusCode (jsonHeaders CORS_HEADERS_img)
             (Some (stringifyLit
                [(''success'', B False), (''error'', S msg), (''code'', N statusCode)])) r)"

definition imageFetchOptions :: fetchOptions where
  "imageFetchOptions =
     \<lparr> fmethod = ''GET'',
       fheaders = [(''User-Agent'', ''KynayMicProxy/1.0''), (''Accept'', ''image/*, */*'')],
       streamsBody = False \<rparr>"

text \<open>The \<open>try\<close> block, lines 149 to 199.\<close>

definition fetchImage ::
  "config \<Rightarrow> 'n platform \<Rightarrow> request \<Rightarrow> string \<Rightarrow> res \<Rightarrow> (res \<times> exn option) \<times> event list" where
  "fetchImage cfg pf req targetUrl r =
     (case fetch pf targetUrl imageFetchOptions of
        Inl e \<Rightarrow> ((r, Some e), [Fetch targetUrl imageFetchOptions])
      | Inr upstreamResponse \<Rightarrow>
          (if \<not> ok upstreamResponse then
             sendError req r (status upstreamResponse)
               (''Upstream failed with status '' @ showNat (status upstreamResponse))
           else
             (let contentLength = hget upstreamResponse ''content-length'' in
              if truthy contentLength \<and>
                 js_gt (parseInt10 (orElse contentLength [])) (IMAGE_MAX_BYTES cfg)
              then
                sendError req r 413
                  (''Image size ('' @ orElse contentLength [] @ '' bytes) exceeds limit (''
                    @ showNum (IMAGE_MAX_BYTES cfg) @ '' bytes)'')
              else
                (let headers0 =
                       setProp ''Cache-Control'' ''public, max-age=86400''
                         (setProp ''Content-Type''
                            (orElse (hget upstreamResponse ''content-type'')
                               ''application/octet-stream'') CORS_HEADERS_img);
                     headers1 = (if truthy contentLength
                                 then setProp ''Content-Length'' (orElse contentLength []) headers0
                                 else headers0)
                 in case writeHead 200 headers1 r of
                      (r1, Some e) \<Rightarrow> (r1, Some e)
                    | (r1, None) \<Rightarrow>
                        (case body upstreamResponse of
                           Some s \<Rightarrow> pipeTo s r1
                         | None \<Rightarrow> (endRes None r1, None)))),
           [Fetch targetUrl imageFetchOptions]))"

definition handler_img :: "config \<Rightarrow> 'n platform \<Rightarrow> int \<Rightarrow> request \<Rightarrow> counts \<Rightarrow> outcome" where
  "handler_img cfg pf now req m =
     (if method req = ''OPTIONS'' then finish (respond 204 CORS_HEADERS_img None res0) m []
      else if method req \<noteq> ''GET'' then
        finish (respond 405 CORS_HEADERS_img (Some ''Method Not Allowed'') res0) m []
      else
        case isRateLimited (RATE_LIMIT_PER_MIN cfg) now (getIp req) m of
          (True, m1) \<Rightarrow> finish (sendError req res0 429 ''Rate limit exceeded'') m1 []
        | (False, m1) \<Rightarrow>
            (let targetUrl = map_of (searchParams req) ''url'' in
             if \<not> truthy targetUrl then
               finish (sendError req res0 400 ''Missing url query parameter'') m1 []
             else
               case newURL pf (orElse targetUrl []) of
                 None \<Rightarrow> finish (sendError req res0 400 ''Invalid URL format'') m1 []
               | Some urlObj \<Rightarrow>
                   if protocol urlObj \<noteq> ''http:'' \<and> protocol urlObj \<noteq> ''https:'' then
                     finish (sendError req res0 400
                       ''Invalid protocol. Only http and https are allowed.'') m1 []
                   else if isPrivateTarget (hostname urlObj) then
                     finish (sendError req res0 400
                       ''Target URL is internal or private. Request blocked.'') m1 []
                   else if (case ALLOWED_HOSTS cfg of
                              None \<Rightarrow> False
                            | Some hosts \<Rightarrow> hostname urlObj \<notin> set hosts) then
                     finish (sendError req res0 403 ''Hostname not allowed.'') m1 []
                   else
                     (case fetchImage cfg pf req (orElse targetUrl []) res0 of
                        ((r1, Some error), tr) \<Rightarrow>
                          finish (sendError req r1 502
                            (''Failed to fetch upstream image: '' @ message error)) m1 tr
                      | ((r1, None), tr) \<Rightarrow> finish (r1, None) m1 tr)))"

section \<open>Sample inputs\<close>

text \<open>
  A platform whose \<open>fetch\<close>, \<open>new URL\<close> and \<open>JSON.parse\<close> return the given results
  whatever they are asked, and a request from one client address. The concrete
  instances of the theorems below are stated on them.
\<close>

definition stubPlatform ::
  "(exn + response) \<Rightarrow> url option \<Rightarrow> 'n json option \<Rightarrow> 'n platform" where
  "stubPlatform fetched parsedUrl parsedJson =
     \<lparr> fetch = (\<lambda>u opts. fetched), newURL = (\<lambda>u. parsedUrl),
       JSON_parse = (\<lambda>t. parsedJson), JSON_stringify = (\<lambda>j. []) \<rparr>"

definition sampleRequest ::
  "string \<Rightarrow> (string \<times> string) list \<Rightarrow> string option \<Rightarrow> request" where
  "sampleRequest meth params acc =
     \<lparr> method = meth, x_forwarded_for = Some ''203.0.113.9'', remoteAddress = None,
       accept = acc, authorization = None, content_type = None, searchParams = params \<rparr>"

text \<open>An upstream image answered with status 206 and a declared length of four bytes.\<close>

definition partialImage :: response where
  "partialImage =
     \<lparr> status = 206,
       rheaders = [(''content-type'', ''image/png''), (''content-length'', ''4'')],
       body = Some (Stream [''abcd''] False) \<rparr>"


text \<open>A tree with a property two levels down: \<open>{"data":[{"title":"X","cover":"/img/a.jpg"}]}\<close>.\<close>

definition nestedCover :: "unit json" where
  "nestedCover =
     JObject [(''data'',
       JArray [JObject [(''title'', JString ''X''), (''cover'', JString ''/img/a.jpg'')]])]"

definition publicUrl :: url where
  "publicUrl = \<lparr> protocol = ''https:'', hostname = ''cdn.example.com'' \<rparr>"

definition privateUrl :: url where
  "privateUrl = \<lparr> protocol = ''http:'', hostname = ''10.0.0.5'' \<rparr>"

text \<open>The limiter after sixty requests of the sample client at time 0.\<close>

definition sixtyRequests :: counts where
  "sixtyRequests = [''203.0.113.9'' \<mapsto> replicate 60 0]"

text \<open>An upstream answer that declares JSON and carries ten bytes that are not JSON.\<close>

definition brokenJson :: response where
  "brokenJson =
     \<lparr> status = 200,
       rheaders = [(''content-type'', ''application/json; charset=utf-8'')],
       body = Some (Stream [''<html>'', ''oops''] False) \<rparr>"

definition homeRequest :: request where
  "homeRequest = sampleRequest ''GET'' [(''rest'', ''komikstation/home'')] None"

section \<open>Properties of the rate limiter\<close>

lemma isRateLimited_cases:
  "isRateLimited lim now ip m =
     (if js_ge (Num (int (length (recentRequests now ip m)))) lim then (True, m)
      else (False, m(ip \<mapsto> recentRequests now ip m @ [now])))"
  by (simp add: isRateLimited_def Let_def)

lemma three_calls_and_a_late_one:
  assumes quiet: "filter (\<lambda>t. t1 - t < 60000) (requestsOf m ip) = []"
    and w12: "t2 - t1 < 60000"
    and w13: "t3 - t1 < 60000"
    and w23: "t3 - t2 < 60000"
    and late: "60000 \<le> t4 - t1"
  shows "fst (calls (Num 2) [(t1, ip), (t2, ip), (t3, ip), (t4, ip)] m)
         = [False, False, True, False]"
proof -
  let ?m1 = "m(ip \<mapsto> [t1])"
  let ?m2 = "m(ip \<mapsto> [t1, t2])"
  note unfold = isRateLimited_cases recentRequests_def RATE_LIMIT_WINDOW_MS_def
  have c1: "isRateLimited (Num 2) t1 ip m = (False, ?m1)"
    using quiet by (simp add: unfold)
  have c2: "isRateLimited (Num 2) t2 ip ?m1 = (False, ?m2)"
    using w12 by (simp add: unfold requestsOf_def)
  have c3: "isRateLimited (Num 2) t3 ip ?m2 = (True, ?m2)"
    using w13 w23 by (simp add: unfold requestsOf_def)
  have c4: "fst (isRateLimited (Num 2) t4 ip ?m2) = False"
    using late by (simp add: unfold requestsOf_def)
  show ?thesis
    using c1 c2 c3 c4 by (simp add: split_beta)
qed

text \<open>
  Claim C5. With limit 2 and the window of 60000 ms, three calls for one identifier
  that has no stored timestamp within the window of the first, all three within the
  window, return false, false, true, and a fourth call made once the window of the
  first has elapsed returns false. In general a call returns true exactly when the
  stored timestamps of the identifier that lie within the trailing window number at
  least the limit; a limited call leaves the map as it was, and any other call stores
  the filtered window with the current time appended.
\<close>

theorem rate_limiter_contract:
  "(filter (\<lambda>t. t1 - t < 60000) (requestsOf m ip) = []
      \<and> t2 - t1 < 60000 \<and> t3 - t1 < 60000 \<and> t3 - t2 < 60000 \<and> 60000 \<le> t4 - t1
      \<longrightarrow> fst (calls (Num 2) [(t1, ip), (t2, ip), (t3, ip), (t4, ip)] m)
            = [False, False, True, False])
   \<and> fst (isRateLimited lim now ident c)
       = js_ge (Num (int (length (filter (\<lambda>t. now - t < 60000) (requestsOf c ident))))) lim
   \<and> (fst (isRateLimited lim now ident c) \<longrightarrow> snd (isRateLimited lim now ident c) = c)
   \<and> (\<not> fst (isRateLimited lim now ident c) \<longrightarrow>
        snd (isRateLimited lim now ident c)
          = c(ident \<mapsto> filter (\<lambda>t. now - t < 60000) (requestsOf c ident) @ [now]))"
proof -
  have scenario: "filter (\<lambda>t. t1 - t < 60000) (requestsOf m ip) = []
      \<and> t2 - t1 < 60000 \<and> t3 - t1 < 60000 \<and> t3 - t2 < 60000 \<and> 60000 \<le> t4 - t1
      \<longrightarrow> fst (calls (Num 2) [(t1, ip), (t2, ip), (t3, ip), (t4, ip)] m)
            = [False, False, True, False]"
    using three_calls_and_a_late_one [of t1 m ip t2 t3 t4] by blast
  have general: "isRateLimited lim now ident c =
     (if js_ge (Num (int (length (filter (\<lambda>t. now - t < 60000) (requestsOf c ident))))) lim
      then (True, c)
      else (False, c(ident \<mapsto> filter (\<lambda>t. now - t < 60000) (requestsOf c ident) @ [now])))"
    by (simp add: isRateLimited_cases recentRequests_def RATE_LIMIT_WINDOW_MS_def)
  show ?thesis
    using scenario by (simp add: general)
qed

theorem rate_limiter_contract_witness:
  "fst (calls (Num 2) [(0, ''203.0.113.9''), (10, ''203.0.113.9''), (20, ''203.0.113.9''),
                       (60000, ''203.0.113.9'')] Map.empty)
     = [False, False, True, False]
   \<and> fst (isRateLimited (Num 2) 20 ''203.0.113.9'' [''203.0.113.9'' \<mapsto> [0, 10]])
   \<and> snd (isRateLimited (Num 2) 20 ''203.0.113.9'' [''203.0.113.9'' \<mapsto> [0, 10]])
       = [''203.0.113.9'' \<mapsto> [0, 10]]"
  using rate_limiter_contract [where m = Map.empty and ip = "''203.0.113.9''" and ?t1.0 = 0
      and ?t2.0 = 10 and ?t3.0 = 20 and ?t4.0 = 60000 and lim = "Num 2" and now = 20
      and ident = "''203.0.113.9''" and c = "[''203.0.113.9'' \<mapsto> [0, 10]]"]
  by (simp add: requestsOf_def)

lemma stored_step:
  assumes "\<forall>ip ts. m ip = Some ts \<longrightarrow> int (length ts) \<le> n"
  shows "\<forall>ip ts. snd (isRateLimited (Num n) now i m) ip = Some ts \<longrightarrow> int (length ts) \<le> n"
  using assms by (auto simp: isRateLimited_cases)

lemma stored_calls:
  assumes "\<forall>ip ts. m ip = Some ts \<longrightarrow> int (length ts) \<le> n"
  shows "\<forall>ip ts. snd (calls (Num n) cs m) ip = Some ts \<longrightarrow> int (length ts) \<le> n"
  using assms
proof (induction cs arbitrary: m)
  case Nil
  then show ?case by simp
next
  case (Cons c cs)
  obtain now i where c: "c = (now, i)" by (cases c)
  have "\<forall>ip ts. snd (isRateLimited (Num n) now i m) ip = Some ts \<longrightarrow> int (length ts) \<le> n"
    using Cons.prems by (rule stored_step)
  then have "\<forall>ip ts. snd (calls (Num n) cs (snd (isRateLimited (Num n) now i m))) ip = Some ts
      \<longrightarrow> int (length ts) \<le> n"
    by (rule Cons.IH)
  then show ?case by (simp add: c split_beta)
qed

text \<open>
  Claim C10, as amended. Starting from the empty map, after any sequence of calls (any
  identifiers, any times), when \<open>RATE_LIMIT_PER_MIN\<close> is a number, the list stored for
  an identifier has at most \<open>RATE_LIMIT_PER_MIN\<close> entries.
\<close>

theorem stored_window_bounded:
  assumes number: "lim \<noteq> NaN"
    and stored: "snd (calls lim cs Map.empty) ip = Some ts"
  shows "js_ge lim (Num (int (length ts)))"
proof -
  obtain n where n: "lim = Num n"
    using number by (cases lim) auto
  have "int (length ts) \<le> n"
    using stored_calls [of Map.empty n cs] stored by (simp add: n)
  then show ?thesis
    by (simp add: n)
qed

theorem stored_window_bounded_witness:
  "snd (calls (Num 2) [(0, ''a''), (5, ''b''), (10, ''a''), (20, ''a'')] Map.empty) ''a''
     = Some [0, 10]
   \<and> js_ge (Num 2) (Num (int (length [0, 10 :: int])))"
proof -
  have number: "Num 2 \<noteq> NaN"
    by simp
  have stored: "snd (calls (Num 2) [(0, ''a''), (5, ''b''), (10, ''a''), (20, ''a'')] Map.empty) ''a''
      = Some [0, 10]"
    by (simp add: isRateLimited_cases recentRequests_def requestsOf_def
        RATE_LIMIT_WINDOW_MS_def split_beta)
  show ?thesis
    using stored stored_window_bounded [OF number stored] by simp
qed

text \<open>
  The claim as it was stated fails when the environment value does not parse and
  \<open>RATE_LIMIT_PER_MIN\<close> is \<open>NaN\<close>: no call is limited, and four calls within the window
  store four timestamps, which is not at most \<open>NaN\<close>.
\<close>

theorem stored_window_nan_counterexample:
  "parseInt10 ''sixty'' = NaN
   \<and> snd (calls NaN [(0, ''a''), (1, ''a''), (2, ''a''), (3, ''a'')] Map.empty) ''a''
       = Some [0, 1, 2, 3]
   \<and> \<not> js_ge NaN (Num (int (length [0, 1, 2, 3 :: int])))"
proof -
  have p: "parseInt10 ''sixty'' = NaN"
    by code_simp
  show ?thesis
    using p
    by (simp add: isRateLimited_cases recentRequests_def requestsOf_def
        RATE_LIMIT_WINDOW_MS_def split_beta)
qed

section \<open>Properties of the image handler\<close>

lemma respond_fresh:
  "respond st hs d res0 =
     (\<lparr> head = Some (st, hs), written = (case d of None \<Rightarrow> [] | Some x \<Rightarrow> [x]),
        ended = True \<rparr>, None)"
  by (simp add: respond_def writeHead_def endRes_def res0_def)

lemma respond_sent:
  "head r \<noteq> None \<Longrightarrow> respond st hs d r = (r, Some (Thrown ''ERR_HTTP_HEADERS_SENT''))"
  by (simp add: respond_def writeHead_def)

lemma sendError_fresh:
  "sendError req res0 statusCode msg =
     (if includesStr (orElse (accept req) []) ''image/''
         \<and> \<not> includesStr (orElse (accept req) []) ''application/json''
      then (\<lparr> head = Some (302, CORS_HEADERS_img @ [(''Location'', PLACEHOLDER_URL)]),
              written = [], ended = True \<rparr>, None)
      else (\<lparr> head = Some (statusCode,
                             CORS_HEADERS_img @ [(''Content-Type'', ''application/json'')]),
              written = [stringifyLit [(''success'', B False), (''error'', S msg),
                                       (''code'', N statusCode)]],
              ended = True \<rparr>, None))"
  by (simp add: sendError_def respond_fresh Let_def jsonHeaders_def CORS_HEADERS_img_def)

lemma sendError_sent: "head r \<noteq> None \<Longrightarrow> fst (sendError req r statusCode msg) = r"
  by (simp add: sendError_def respond_sent Let_def)

lemma head_writeChunks: "head (foldl (\<lambda>r1 c. writeChunk c r1) r cs) = head r"
  by (induction cs arbitrary: r) (simp_all add: writeChunk_def)

lemma head_endRes: "head (endRes d r) = head r"
  by (simp add: endRes_def)

lemma head_pipeTo: "head (fst (pipeTo s r)) = head r"
  by (cases s) (simp add: pipeTo_def head_endRes head_writeChunks)





lemma fetchImage_ok:
  assumes f: "fetch pf target imageFetchOptions = Inr up"
    and ok: "ok up"
    and len: "\<forall>cl. hget up ''content-length'' = Some cl
                \<longrightarrow> \<not> js_gt (parseInt10 cl) (IMAGE_MAX_BYTES cfg)"
  shows "map_option fst (head (fst (fst (fetchImage cfg pf req target res0)))) = Some 200"
proof -
  have small: "\<not> (truthy (hget up ''content-length'') \<and>
      js_gt (parseInt10 (orElse (hget up ''content-length'') [])) (IMAGE_MAX_BYTES cfg))"
    using len by (cases "hget up ''content-length''") (auto simp: truthy_def orElse_def)
  show ?thesis
    using f ok small
    by (simp add: fetchImage_def Let_def writeHead_def res0_def head_pipeTo head_endRes
        split: option.split)
qed

text \<open>
  Claim C9. A GET request that the limiter lets through, whose non-empty \<open>url\<close>
  parameter parses to an http or https URL with a hostname that is not private and is
  allowed, whose fetch returns a response with a 2xx status, and whose declared
  content length (if any) is not above \<open>IMAGE_MAX_BYTES\<close>: the status written to the
  client is 200, whatever the 2xx status of the upstream and whether or not the body
  stream later fails.
\<close>

theorem image_success_status_200:
  assumes get: "method req = ''GET''"
    and free: "\<not> fst (isRateLimited (RATE_LIMIT_PER_MIN cfg) now (getIp req) m)"
    and param: "map_of (searchParams req) ''url'' = Some target"
    and ne: "target \<noteq> []"
    and u: "newURL pf target = Some u"
    and proto: "protocol u = ''http:'' \<or> protocol u = ''https:''"
    and pub: "\<not> isPrivateTarget (hostname u)"
    and allowed: "\<forall>hosts. ALLOWED_HOSTS cfg = Some hosts \<longrightarrow> hostname u \<in> set hosts"
    and f: "fetch pf target imageFetchOptions = Inr up"
    and ok: "ok up"
    and len: "\<forall>cl. hget up ''content-length'' = Some cl
                \<longrightarrow> \<not> js_gt (parseInt10 cl) (IMAGE_MAX_BYTES cfg)"
  shows "map_option fst (head (response_written (handler_img cfg pf now req m))) = Some 200"
proof -
  obtain m1 where lim: "isRateLimited (RATE_LIMIT_PER_MIN cfg) now (getIp req) m = (False, m1)"
    using free by (cases "isRateLimited (RATE_LIMIT_PER_MIN cfg) now (getIp req) m") auto
  obtain r1 e tr where fi: "fetchImage cfg pf req target res0 = ((r1, e), tr)"
    by (metis surj_pair)
  have h200: "map_option fst (head r1) = Some 200"
    using fetchImage_ok [OF f ok len, of req] by (simp add: fi)
  have gate: "\<not> (case ALLOWED_HOSTS cfg of None \<Rightarrow> False
                  | Some hosts \<Rightarrow> hostname u \<notin> set hosts)"
    using allowed by (cases "ALLOWED_HOSTS cfg") auto
  have out: "response_written (handler_img cfg pf now req m)
      = (case e of None \<Rightarrow> r1
         | Some error \<Rightarrow> fst (sendError req r1 502
             (''Failed to fetch upstream image: '' @ message error)))"
    using get lim param ne u proto pub gate
    by (auto simp: handler_img_def Let_def truthy_def orElse_def fi finish_def
        split: option.split)
  have sent: "head r1 \<noteq> None"
    using h200 by auto
  show ?thesis
    using h200 by (cases e) (simp_all add: out sendError_sent [OF sent])
qed

theorem image_success_status_200_witness:
  "status partialImage = 206
   \<and> map_option fst (head (response_written (handler_img defaults
        (stubPlatform (Inr partialImage) (Some publicUrl) (None :: unit json option)) 0
        (sampleRequest ''GET'' [(''url'', ''https://cdn.example.com/a.png'')] None) Map.empty)))
     = Some 200"
proof -
  let ?req = "sampleRequest ''GET'' [(''url'', ''https://cdn.example.com/a.png'')] None"
  let ?pf = "stubPlatform (Inr partialImage) (Some publicUrl) (None :: unit json option)"
  have get: "method ?req = ''GET''"
    by (simp add: sampleRequest_def)
  have free: "\<not> fst (isRateLimited (RATE_LIMIT_PER_MIN defaults) 0 (getIp ?req) Map.empty)"
    by (simp add: isRateLimited_cases recentRequests_def requestsOf_def defaults_def
        parseInt10_def isDigit_def between_def codeUnit_def digitVal_def isWhite_def)
  have param: "map_of (searchParams ?req) ''url'' = Some ''https://cdn.example.com/a.png''"
    by (simp add: sampleRequest_def)
  have ne: "''https://cdn.example.com/a.png'' \<noteq> []"
    by simp
  have u: "newURL ?pf ''https://cdn.example.com/a.png'' = Some publicUrl"
    by (simp add: stubPlatform_def)
  have proto: "protocol publicUrl = ''http:'' \<or> protocol publicUrl = ''https:''"
    by (simp add: publicUrl_def)
  have pub: "\<not> isPrivateTarget (hostname publicUrl)"
    by code_simp
  have allowed: "\<forall>hosts. ALLOWED_HOSTS defaults = Some hosts \<longrightarrow> hostname publicUrl \<in> set hosts"
    by (simp add: ALLOWED_HOSTS_def defaults_def)
  have f: "fetch ?pf ''https://cdn.example.com/a.png'' imageFetchOptions = Inr partialImage"
    by (simp add: stubPlatform_def)
  have ok: "ok partialImage"
    by (simp add: ok_def partialImage_def)
  have small: "\<not> js_gt (parseInt10 ''4'') (IMAGE_MAX_BYTES defaults)"
    by code_simp
  have len: "\<forall>cl. hget partialImage ''content-length'' = Some cl
      \<longrightarrow> \<not> js_gt (parseInt10 cl) (IMAGE_MAX_BYTES defaults)"
    using small by (simp add: hget_def partialImage_def)
  have st: "status partialImage = 206"
    by (simp add: partialImage_def)
  show ?thesis
    using st image_success_status_200 [OF get free param ne u proto pub allowed f ok len]
    by simp
qed

text \<open>
  Claim C8, as amended. Take a request whose \<open>url\<close> parameter parses to a URL with a
  hostname that \<open>isPrivateTarget\<close> classifies as private. Whatever its method and
  whatever the limiter says, the handler performs no fetch. If moreover it is a GET
  request that the limiter lets through, the handler throws nothing and answers 400, or
  302 (the placeholder) when the accept header contains \<open>image/\<close> and not
  \<open>application/json\<close>.
\<close>

theorem private_target_blocked:
  assumes param: "map_of (searchParams req) ''url'' = Some target"
    and u: "newURL pf target = Some u"
    and priv: "isPrivateTarget (hostname u)"
  shows "trace (handler_img cfg pf now req m) = []
    \<and> (method req = ''GET'' \<and> \<not> fst (isRateLimited (RATE_LIMIT_PER_MIN cfg) now (getIp req) m)
        \<longrightarrow> thrown (handler_img cfg pf now req m) = None
          \<and> map_option fst (head (response_written (handler_img cfg pf now req m)))
            = Some (if includesStr (orElse (accept req) []) ''image/''
                       \<and> \<not> includesStr (orElse (accept req) []) ''application/json''
                    then 302 else 400))"
proof -
  obtain b m1 where lim: "isRateLimited (RATE_LIMIT_PER_MIN cfg) now (getIp req) m = (b, m1)"
    by (metis surj_pair)
  have notrace: "trace (handler_img cfg pf now req m) = []"
    using param u priv lim
    by (cases b) (simp_all add: handler_img_def Let_def finish_def orElse_def)
  have answered: "thrown (handler_img cfg pf now req m) = None
          \<and> map_option fst (head (response_written (handler_img cfg pf now req m)))
            = Some (if includesStr (orElse (accept req) []) ''image/''
                       \<and> \<not> includesStr (orElse (accept req) []) ''application/json''
                    then 302 else 400)"
    if get: "method req = ''GET''" and free: "\<not> b"
    using param u priv lim get free
    by (simp add: handler_img_def Let_def finish_def orElse_def sendError_fresh)
  show ?thesis
    using notrace answered lim by simp
qed

theorem private_target_blocked_witness:
  "trace (handler_img defaults
      (stubPlatform (Inr partialImage) (Some privateUrl) (None :: unit json option)) 0
      (sampleRequest ''GET'' [(''url'', ''http://10.0.0.5/x.png'')] None) Map.empty) = []
   \<and> map_option fst (head (response_written (handler_img defaults
        (stubPlatform (Inr partialImage) (Some privateUrl) (None :: unit json option)) 0
        (sampleRequest ''GET'' [(''url'', ''http://10.0.0.5/x.png'')] None) Map.empty)))
     = Some 400"
proof -
  let ?req = "sampleRequest ''GET'' [(''url'', ''http://10.0.0.5/x.png'')] None"
  let ?pf = "stubPlatform (Inr partialImage) (Some privateUrl) (None :: unit json option)"
  have param: "map_of (searchParams ?req) ''url'' = Some ''http://10.0.0.5/x.png''"
    by (simp add: sampleRequest_def)
  have u: "newURL ?pf ''http://10.0.0.5/x.png'' = Some privateUrl"
    by (simp add: stubPlatform_def)
  have priv: "isPrivateTarget (hostname privateUrl)"
    by code_simp
  have get: "method ?req = ''GET''"
    by (simp add: sampleRequest_def)
  have free: "\<not> fst (isRateLimited (RATE_LIMIT_PER_MIN defaults) 0 (getIp ?req) Map.empty)"
    by (simp add: isRateLimited_cases recentRequests_def requestsOf_def defaults_def
        parseInt10_def isDigit_def between_def codeUnit_def digitVal_def isWhite_def)
  have acc: "\<not> includesStr (orElse (accept ?req) []) ''image/''"
    by (simp add: sampleRequest_def orElse_def)
  show ?thesis
    using private_target_blocked [OF param u priv, of defaults 0 Map.empty] get free acc
    by simp
qed

text \<open>
  The claim as it was stated fails on the sixty-first GET request of a client within the
  window: its target \<open>http://10.0.0.5/x.png\<close> is private, and the answer is 429.
\<close>

theorem private_target_rate_limited_counterexample:
  "isPrivateTarget (hostname privateUrl)
   \<and> newURL (stubPlatform (Inr partialImage) (Some privateUrl) (None :: unit json option))
        ''http://10.0.0.5/x.png'' = Some privateUrl
   \<and> map_option fst (head (response_written (handler_img defaults
        (stubPlatform (Inr partialImage) (Some privateUrl) (None :: unit json option)) 1
        (sampleRequest ''GET'' [(''url'', ''http://10.0.0.5/x.png'')] None) sixtyRequests)))
     = Some 429"
proof -
  have p: "isPrivateTarget (hostname privateUrl)"
    by code_simp
  have rl: "RATE_LIMIT_PER_MIN defaults = Num 60"
    by code_simp
  have lim: "isRateLimited (Num 60) 1 ''203.0.113.9'' sixtyRequests = (True, sixtyRequests)"
    by (simp add: isRateLimited_cases recentRequests_def requestsOf_def sixtyRequests_def
        RATE_LIMIT_WINDOW_MS_def)
  have acc: "\<not> includesStr [] ''image/''"
    by code_simp
  show ?thesis
    using p acc
    by (simp add: handler_img_def sampleRequest_def getIp_def orElse_def rl lim finish_def
        sendError_fresh stubPlatform_def)
qed

section \<open>Properties of the gateway handler\<close>

lemma handler_forwarded:
  assumes opt: "method req \<noteq> ''OPTIONS''"
    and free: "\<not> fst (isRateLimited (RATE_LIMIT_PER_MIN cfg) now (getIp req) m)"
    and param: "map_of (searchParams req) ''rest'' = Some rest"
    and pre: "startsWith rest ''komikstation/''"
  shows "handler cfg pf now req m =
     (case forward cfg pf req (UPSTREAM_BASE @ ''/'' @ rest) res0 of
        ((r1, Some error), tr) \<Rightarrow>
          finish (respond 502 (jsonHeaders CORS_HEADERS)
            (Some (stringifyLit
               [(''success'', B False),
                (''error'', S ''Failed to fetch from upstream''),
                (''code'', N 502),
                (''details'', S (message error))]))
            r1) (snd (isRateLimited (RATE_LIMIT_PER_MIN cfg) now (getIp req) m)) tr
      | ((r1, None), tr) \<Rightarrow>
          finish (r1, None) (snd (isRateLimited (RATE_LIMIT_PER_MIN cfg) now (getIp req) m)) tr)"
proof -
  obtain m1 where lim: "isRateLimited (RATE_LIMIT_PER_MIN cfg) now (getIp req) m = (False, m1)"
    using free by (cases "isRateLimited (RATE_LIMIT_PER_MIN cfg) now (getIp req) m") auto
  have ne: "rest \<noteq> []"
    using pre by (auto simp: startsWith_def)
  show ?thesis
    using opt lim param pre ne
    by (simp add: handler_def Let_def truthy_def orElse_def)
qed

lemma map_of_setProp:
  "map_of (setProp k v hs) k' = (if k' = k then Some v else map_of hs k')"
  by (induction hs) auto

lemma streamPassthrough_fresh:
  "\<exists>r hs. streamPassthrough up res0 extra = (r, None)
      \<and> head r = Some (status up, hs)
      \<and> map_of hs ''Content-Type''
          = Some (orElse (hget up ''content-type'') ''application/octet-stream'')"
proof -
  let ?h1 = "setProp ''Content-Type''
      (orElse (hget up ''content-type'') ''application/octet-stream'') (spread CORS_HEADERS extra)"
  let ?h2 = "case hget up ''content-length'' of None \<Rightarrow> ?h1
             | Some v \<Rightarrow> setProp ''Content-Length'' v ?h1"
  have ty: "map_of ?h2 ''Content-Type''
      = Some (orElse (hget up ''content-type'') ''application/octet-stream'')"
    by (cases "hget up ''content-length''") (simp_all add: map_of_setProp)
  have wh: "writeHead (status up) ?h2 res0
      = (res0\<lparr>head := Some (status up, ?h2)\<rparr>, None)"
    by (simp add: writeHead_def res0_def)
  obtain r where r: "streamPassthrough up res0 extra = (r, None)"
    and h: "head r = Some (status up, ?h2)"
  proof (cases "body up")
    case None
    then show ?thesis
      using that wh by (simp add: streamPassthrough_def Let_def head_endRes)
  next
    case (Some s)
    obtain r2 e where p: "pipeTo s (res0\<lparr>head := Some (status up, ?h2)\<rparr>) = (r2, e)"
      by (metis surj_pair)
    have h2: "head r2 = Some (status up, ?h2)"
      using head_pipeTo [of s "res0\<lparr>head := Some (status up, ?h2)\<rparr>"] by (simp add: p)
    show ?thesis
      using that wh Some p h2
      by (cases e) (simp_all add: streamPassthrough_def Let_def head_endRes)
  qed
  show ?thesis
    using r h ty by blast
qed

text \<open>
  Claim C6. A request that is forwarded (not OPTIONS, let through by the limiter, with
  a \<open>rest\<close> path under \<open>komikstation/\<close>), whose upstream response has a content type
  containing \<open>application/json\<close> and a body of more bytes than \<open>MAX_JSON_SIZE_BYTES\<close>:
  the gateway answers 502 with the body
  \<open>{"success":false,"error":"Upstream response too large to parse","code":502,"rewrote":false}\<close>,
  and apart from the fetch it calls neither \<open>JSON.parse\<close> nor the rewriter.
\<close>

theorem oversized_json_rejected:
  assumes opt: "method req \<noteq> ''OPTIONS''"
    and free: "\<not> fst (isRateLimited (RATE_LIMIT_PER_MIN cfg) now (getIp req) m)"
    and param: "map_of (searchParams req) ''rest'' = Some rest"
    and pre: "startsWith rest ''komikstation/''"
    and f: "fetch pf (UPSTREAM_BASE @ ''/'' @ rest) (gatewayFetchOptions req) = Inr up"
    and ct: "hget up ''content-type'' = Some ctype"
    and json: "includesStr ctype ''application/json''"
    and rd: "text_of up = Inr t"
    and lim: "MAX_JSON_SIZE_BYTES cfg = Num limit"
    and big: "limit < int (byteLength t)"
  shows \<open>response_written (handler cfg pf now req m)
      = \<lparr> head = Some (502, CORS_HEADERS @ [(''Content-Type'', ''application/json'')]),
          written = [''{"success":false,"error":"Upstream response too large to parse","code":502,"rewrote":false}''],
          ended = True \<rparr>
    \<and> thrown (handler cfg pf now req m) = None
    \<and> trace (handler cfg pf now req m)
        = [Fetch (UPSTREAM_BASE @ ''/'' @ rest) (gatewayFetchOptions req)]\<close>
proof -
  have body: \<open>stringifyLit [(''success'', B False),
        (''error'', S ''Upstream response too large to parse''), (''code'', N 502),
        (''rewrote'', B False)]
      = ''{"success":false,"error":"Upstream response too large to parse","code":502,"rewrote":false}''\<close>
    by code_simp
  have ne: "ctype \<noteq> []"
    using json by auto
  have fw: "forward cfg pf req (UPSTREAM_BASE @ ''/'' @ rest) res0 =
     (respond 502 (jsonHeaders CORS_HEADERS)
        (Some (stringifyLit [(''success'', B False),
           (''error'', S ''Upstream response too large to parse''), (''code'', N 502),
           (''rewrote'', B False)])) res0,
      [Fetch (UPSTREAM_BASE @ ''/'' @ rest) (gatewayFetchOptions req)])"
    using f ct json rd lim big ne
    by (simp add: forward_def Let_def orElse_def)
  show ?thesis
    unfolding handler_forwarded [OF opt free param pre] fw body respond_fresh
    by (simp add: finish_def jsonHeaders_def CORS_HEADERS_def)
qed

theorem oversized_json_rejected_witness:
  \<open>response_written (handler (defaults\<lparr>MAX_JSON_SIZE_BYTES := Num 4\<rparr>)
        (stubPlatform (Inr brokenJson) None (None :: unit json option)) 0 homeRequest Map.empty)
      = \<lparr> head = Some (502, CORS_HEADERS @ [(''Content-Type'', ''application/json'')]),
          written = [''{"success":false,"error":"Upstream response too large to parse","code":502,"rewrote":false}''],
          ended = True \<rparr>
   \<and> trace (handler (defaults\<lparr>MAX_JSON_SIZE_BYTES := Num 4\<rparr>)
        (stubPlatform (Inr brokenJson) None (None :: unit json option)) 0 homeRequest Map.empty)
      = [Fetch ''https://www.sankavollerei.com/comic/komikstation/home''
           (gatewayFetchOptions homeRequest)]\<close>
proof -
  let ?cfg = "defaults\<lparr>MAX_JSON_SIZE_BYTES := Num 4\<rparr>"
  let ?pf = "stubPlatform (Inr brokenJson) None (None :: unit json option)"
  have opt: "method homeRequest \<noteq> ''OPTIONS''"
    by (simp add: homeRequest_def sampleRequest_def)
  have free: "\<not> fst (isRateLimited (RATE_LIMIT_PER_MIN ?cfg) 0 (getIp homeRequest) Map.empty)"
    by (simp add: isRateLimited_cases recentRequests_def requestsOf_def defaults_def
        parseInt10_def isDigit_def between_def codeUnit_def digitVal_def isWhite_def)
  have param: "map_of (searchParams homeRequest) ''rest'' = Some ''komikstation/home''"
    by (simp add: homeRequest_def sampleRequest_def)
  have pre: "startsWith ''komikstation/home'' ''komikstation/''"
    by (simp add: startsWith_def)
  have f: "fetch ?pf (UPSTREAM_BASE @ ''/'' @ ''komikstation/home'')
      (gatewayFetchOptions homeRequest) = Inr brokenJson"
    by (simp add: stubPlatform_def)
  have ct: "hget brokenJson ''content-type'' = Some ''application/json; charset=utf-8''"
    by (simp add: hget_def brokenJson_def)
  have json: "includesStr ''application/json; charset=utf-8'' ''application/json''"
    by code_simp
  have rd: "text_of brokenJson = Inr ''<html>oops''"
    by (simp add: text_of_def brokenJson_def)
  have lim: "MAX_JSON_SIZE_BYTES ?cfg = Num 4"
    by simp
  have big: "4 < int (byteLength ''<html>oops'')"
    by code_simp
  show ?thesis
    using oversized_json_rejected [OF opt free param pre f ct json rd lim big]
    by (simp add: UPSTREAM_BASE_def)
qed

text \<open>
  Claim C3 (the code departs from it). A forwarded request whose upstream response
  declares a content type containing \<open>application/json\<close>, fits the size limit, does not
  parse as JSON and can be wrapped in a new response: the gateway answers with the
  upstream status, and the \<open>Content-Type\<close> it sends is the one the upstream declared.
  The \<open>text/plain\<close> header handed to \<open>streamPassthrough\<close> is overwritten there.
\<close>

theorem unparsable_json_keeps_upstream_type:
  assumes opt: "method req \<noteq> ''OPTIONS''"
    and free: "\<not> fst (isRateLimited (RATE_LIMIT_PER_MIN cfg) now (getIp req) m)"
    and param: "map_of (searchParams req) ''rest'' = Some rest"
    and pre: "startsWith rest ''komikstation/''"
    and f: "fetch pf (UPSTREAM_BASE @ ''/'' @ rest) (gatewayFetchOptions req) = Inr up"
    and ct: "hget up ''content-type'' = Some ctype"
    and json: "includesStr ctype ''application/json''"
    and rd: "text_of up = Inr t"
    and small: "\<not> js_gt (Num (int (byteLength t))) (MAX_JSON_SIZE_BYTES cfg)"
    and bad: "JSON_parse pf t = None"
    and st: "newResponse t up = Inr wrapped"
  shows "\<exists>hs. head (response_written (handler cfg pf now req m)) = Some (status up, hs)
           \<and> map_of hs ''Content-Type'' = Some ctype"
proof -
  have ne: "ctype \<noteq> []"
    using json by auto
  have wrapped: "status wrapped = status up \<and> hget wrapped ''content-type'' = Some ctype"
    using st ct by (auto simp: newResponse_def hget_def split: if_splits)
  have fw: "fst (forward cfg pf req (UPSTREAM_BASE @ ''/'' @ rest) res0) =
      streamPassthrough wrapped res0 [(''Content-Type'', ''text/plain; charset=utf-8'')]"
    using f ct json rd small bad st ne
    by (simp add: forward_def Let_def orElse_def)
  obtain r hs where sp: "streamPassthrough wrapped res0
        [(''Content-Type'', ''text/plain; charset=utf-8'')] = (r, None)"
    and h: "head r = Some (status wrapped, hs)"
    and ty: "map_of hs ''Content-Type''
          = Some (orElse (hget wrapped ''content-type'') ''application/octet-stream'')"
    using streamPassthrough_fresh [of wrapped "[(''Content-Type'', ''text/plain; charset=utf-8'')]"]
    by blast
  obtain tr where fw2: "forward cfg pf req (UPSTREAM_BASE @ ''/'' @ rest) res0 = ((r, None), tr)"
    using fw sp by (cases "forward cfg pf req (UPSTREAM_BASE @ ''/'' @ rest) res0") simp
  have out: "response_written (handler cfg pf now req m) = r"
    unfolding handler_forwarded [OF opt free param pre] fw2 by (simp add: finish_def)
  show ?thesis
    using h ty wrapped ne by (simp add: out orElse_def)
qed

theorem unparsable_json_keeps_upstream_type_witness:
  "JSON_parse (stubPlatform (Inr brokenJson) None (None :: unit json option)) ''<html>oops''
     = None
   \<and> (\<exists>hs. head (response_written (handler defaults
          (stubPlatform (Inr brokenJson) None (None :: unit json option)) 0 homeRequest
          Map.empty)) = Some (200, hs)
        \<and> map_of hs ''Content-Type'' = Some ''application/json; charset=utf-8'')"
proof -
  let ?pf = "stubPlatform (Inr brokenJson) None (None :: unit json option)"
  have opt: "method homeRequest \<noteq> ''OPTIONS''"
    by (simp add: homeRequest_def sampleRequest_def)
  have free: "\<not> fst (isRateLimited (RATE_LIMIT_PER_MIN defaults) 0 (getIp homeRequest) Map.empty)"
    by (simp add: isRateLimited_cases recentRequests_def requestsOf_def defaults_def
        parseInt10_def isDigit_def between_def codeUnit_def digitVal_def isWhite_def)
  have param: "map_of (searchParams homeRequest) ''rest'' = Some ''komikstation/home''"
    by (simp add: homeRequest_def sampleRequest_def)
  have pre: "startsWith ''komikstation/home'' ''komikstation/''"
    by (simp add: startsWith_def)
  have f: "fetch ?pf (UPSTREAM_BASE @ ''/'' @ ''komikstation/home'')
      (gatewayFetchOptions homeRequest) = Inr brokenJson"
    by (simp add: stubPlatform_def)
  have ct: "hget brokenJson ''content-type'' = Some ''application/json; charset=utf-8''"
    by (simp add: hget_def brokenJson_def)
  have json: "includesStr ''application/json; charset=utf-8'' ''application/json''"
    by code_simp
  have rd: "text_of brokenJson = Inr ''<html>oops''"
    by (simp add: text_of_def brokenJson_def)
  have small: "\<not> js_gt (Num (int (byteLength ''<html>oops''))) (MAX_JSON_SIZE_BYTES defaults)"
    by code_simp
  have bad: "JSON_parse ?pf ''<html>oops'' = None"
    by (simp add: stubPlatform_def)
  have st: "newResponse ''<html>oops'' brokenJson
      = Inr \<lparr> status = 200,
               rheaders = [(''content-type'', ''application/json; charset=utf-8'')],
               body = Some (Stream [''<html>oops''] False) \<rparr>"
    by (simp add: newResponse_def brokenJson_def hget_def)
  have code: "status brokenJson = 200"
    by (simp add: brokenJson_def)
  show ?thesis
    using bad unparsable_json_keeps_upstream_type [OF opt free param pre f ct json rd small bad st]
    by (simp add: code)
qed

section \<open>Properties of the URL rewriter\<close>

text \<open>
  Claim C1 (the code departs from it). Strings that are elements of an array come back
  unchanged, whatever they look like and whatever the URL parser says: the traversal
  calls itself on each element, and a call on a string does nothing. The same string as
  the value of a property goes through the rewrite rule.
\<close>

theorem array_strings_not_rewritten:
  "recursiveRewrite validUrl origin (JArray (map JString ss)) = JArray (map JString ss)
   \<and> recursiveRewrite validUrl origin (JObject [(key, JString s)])
       = JObject [(key, JString (rewriteString validUrl origin s))]"
proof -
  have "recursiveRewrite validUrl origin (JArray (map JString ss)) = JArray (map JString ss)"
    by (induction ss) simp_all
  then show ?thesis
    by simp
qed

theorem array_strings_not_rewritten_witness:
  "recursiveRewrite (\<lambda>u. True) UPSTREAM_ORIGIN
     (JArray (map JString [''https://cdn.example.com/a.jpg'', ''/uploads/b.png'']))
     = (JArray [JString ''https://cdn.example.com/a.jpg'', JString ''/uploads/b.png''] :: unit json)
   \<and> recursiveRewrite (\<lambda>u. True) UPSTREAM_ORIGIN
       (JObject [(''cover'', JString ''https://cdn.example.com/a.jpg'')])
     = (JObject [(''cover'',
          JString ''/api/proxy-img?url=https%3A%2F%2Fcdn.example.com%2Fa.jpg'')] :: unit json)"
proof -
  have s: "rewriteString (\<lambda>u. True) UPSTREAM_ORIGIN ''https://cdn.example.com/a.jpg''
      = ''/api/proxy-img?url=https%3A%2F%2Fcdn.example.com%2Fa.jpg''"
    by code_simp
  show ?thesis
    using array_strings_not_rewritten [of "\<lambda>u. True" UPSTREAM_ORIGIN
        "[''https://cdn.example.com/a.jpg'', ''/uploads/b.png'']" "''cover''"
        "''https://cdn.example.com/a.jpg''", where ?'a = unit]
    by (simp add: s)
qed

lemma subtreeAt_rewrite:
  assumes "subtreeAt t p = Some (JObject props)"
  shows "subtreeAt (recursiveRewrite validUrl origin t) p
         = Some (recursiveRewrite validUrl origin (JObject props))"
  using assms
proof (induction t p rule: subtreeAt.induct)
  case (1 t)
  then show ?case by simp
next
  case (2 ps i p)
  then have i: "i < length ps" and sub: "subtreeAt (snd (ps ! i)) p = Some (JObject props)"
    by (auto split: if_splits)
  have ih: "subtreeAt (recursiveRewrite validUrl origin (snd (ps ! i))) p
         = Some (recursiveRewrite validUrl origin (JObject props))"
    using 2 i sub by simp
  show ?case
  proof (cases "snd (ps ! i)")
    case (JArray xs)
    then show ?thesis using i ih by simp
  next
    case (JObject qs)
    then show ?thesis using i ih by simp
  next
    case JNull
    then show ?thesis using sub by (cases p) simp_all
  next
    case (JBool b)
    then show ?thesis using sub by (cases p) simp_all
  next
    case (JNumber n)
    then show ?thesis using sub by (cases p) simp_all
  next
    case (JString s)
    then show ?thesis using sub by (cases p) simp_all
  qed
next
  case (3 items i p)
  then show ?case by (auto split: if_splits)
qed simp_all

lemma every_property_string:
  assumes sub: "subtreeAt t p = Some (JObject props)"
    and i: "i < length props"
    and pv: "props ! i = (key, JString v)"
  shows "\<exists>props'. subtreeAt (recursiveRewrite validUrl origin t) p = Some (JObject props')
      \<and> length props' = length props
      \<and> props' ! i = (key, JString (rewriteString validUrl origin v))"
  using subtreeAt_rewrite [OF sub, of validUrl origin] i pv by simp

text \<open>
  Claim C4, as amended. Take any object anywhere in the tree and any of its properties
  whose value is a string \<open>v\<close> that begins with \<open>/\<close>. The rewriter marks \<open>v\<close> exactly
  when the resolution \<open>upstreamOrigin + v\<close> matches the upload-path pattern, or begins
  with \<open>http://\<close> or \<open>https://\<close> and matches the image-extension pattern. In the
  rewritten tree the object is at the same place with as many properties, and this
  property holds the proxy reference to the resolution when \<open>v\<close> is marked and the
  resolution parses as a URL, and \<open>v\<close> itself otherwise.
\<close>

theorem relative_string_rule:
  assumes sub: "subtreeAt t p = Some (JObject props)"
    and i: "i < length props"
    and pv: "props ! i = (key, JString v)"
    and rel: "startsWith v ''/''"
  shows "needsRewrite origin v
      = (test True UPLOAD_HEURISTICS (origin @ v)
         \<or> (absoluteUrl (origin @ v) \<and> test True IMAGE_EXTENSIONS (origin @ v)))
    \<and> (\<exists>props'. subtreeAt (recursiveRewrite validUrl origin t) p = Some (JObject props')
          \<and> length props' = length props
          \<and> props' ! i = (key, JString
               (if needsRewrite origin v \<and> validUrl (origin @ v)
                then ''/api/proxy-img?url='' @ encodeURIComponent (origin @ v) else v)))"
proof -
  have mark: "needsRewrite origin v
      = (test True UPLOAD_HEURISTICS (origin @ v)
         \<or> (absoluteUrl (origin @ v) \<and> test True IMAGE_EXTENSIONS (origin @ v)))"
    using rel by (auto simp: needsRewrite_def resolved_def Let_def)
  have rule: "rewriteString validUrl origin v
      = (if needsRewrite origin v \<and> validUrl (origin @ v)
         then ''/api/proxy-img?url='' @ encodeURIComponent (origin @ v) else v)"
    using rel by (simp add: rewriteString_def resolved_def)
  show ?thesis
    using mark every_property_string [OF sub i pv, of validUrl origin] by (simp add: rule)
qed

theorem relative_string_rule_witness:
  "needsRewrite UPSTREAM_ORIGIN ''/img/a.jpg''
   \<and> absoluteUrl (UPSTREAM_ORIGIN @ ''/img/a.jpg'')
   \<and> test True IMAGE_EXTENSIONS (UPSTREAM_ORIGIN @ ''/img/a.jpg'')
   \<and> (\<exists>props'. subtreeAt (recursiveRewrite (\<lambda>u. True) UPSTREAM_ORIGIN nestedCover)
          [Prop 0, Elem 0] = Some (JObject props')
        \<and> length props' = 2
        \<and> props' ! 1 = (''cover'', JString (''/api/proxy-img?url=''
             @ encodeURIComponent (UPSTREAM_ORIGIN @ ''/img/a.jpg''))))"
proof -
  have sub: "subtreeAt nestedCover [Prop 0, Elem 0]
      = Some (JObject [(''title'', JString ''X''), (''cover'', JString ''/img/a.jpg'')])"
    by (simp add: nestedCover_def)
  have i: "1 < length [(''title'', JString ''X'' :: unit json), (''cover'', JString ''/img/a.jpg'')]"
    by simp
  have pv: "[(''title'', JString ''X'' :: unit json), (''cover'', JString ''/img/a.jpg'')] ! 1
      = (''cover'', JString ''/img/a.jpg'')"
    by simp
  have rel: "startsWith ''/img/a.jpg'' ''/''"
    by (simp add: startsWith_def)
  have a: "absoluteUrl (UPSTREAM_ORIGIN @ ''/img/a.jpg'')"
    by code_simp
  have im: "test True IMAGE_EXTENSIONS (UPSTREAM_ORIGIN @ ''/img/a.jpg'')"
    by code_simp
  note rule = relative_string_rule [OF sub i pv rel, of UPSTREAM_ORIGIN "\<lambda>u. True"]
  have marked: "needsRewrite UPSTREAM_ORIGIN ''/img/a.jpg''"
    using rule a im by simp
  obtain props' where
    "subtreeAt (recursiveRewrite (\<lambda>u. True) UPSTREAM_ORIGIN nestedCover) [Prop 0, Elem 0]
       = Some (JObject props')"
    and "length props' = 2"
    and "props' ! 1 = (''cover'', JString (''/api/proxy-img?url=''
           @ encodeURIComponent (UPSTREAM_ORIGIN @ ''/img/a.jpg'')))"
    using rule marked by auto
  then show ?thesis
    using a im marked by blast
qed

text \<open>
  The claim as it was stated fails on \<open>/img/a.jpg\<close> under the gateway's upstream origin:
  the resolution does not match the upload-path pattern, yet the value is marked and
  replaced.
\<close>

theorem relative_image_counterexample:
  "startsWith ''/img/a.jpg'' ''/''
   \<and> \<not> test True UPLOAD_HEURISTICS (UPSTREAM_ORIGIN @ ''/img/a.jpg'')
   \<and> needsRewrite UPSTREAM_ORIGIN ''/img/a.jpg''
   \<and> recursiveRewrite (\<lambda>u. True) UPSTREAM_ORIGIN (JObject [(''cover'', JString ''/img/a.jpg'')])
      = (JObject [(''cover'', JString
           ''/api/proxy-img?url=https%3A%2F%2Fwww.sankavollerei.com%2Fimg%2Fa.jpg'')] :: unit json)"
  by code_simp

section \<open>Properties of the private-target check\<close>

text \<open>
  Claim C2 (the code departs from it). \<open>110.0.0.1\<close>, \<open>210.1.1.1\<close> and \<open>8.8.10.8\<close> are
  dotted quads outside 127/8, 10/8, 172.16/12 and 192.168/16, and \<open>isPrivateTarget\<close>
  classifies each of them as private: the alternatives for 127, 10 and 172 carry no
  anchor, so they match inside the address.
\<close>

theorem public_addresses_classified_private:
  "test False ipRegex ''110.0.0.1'' \<and> isPrivateTarget ''110.0.0.1''
   \<and> isPrivateTarget ''210.1.1.1'' \<and> isPrivateTarget ''8.8.10.8''
   \<and> \<not> isPrivateTarget ''8.8.8.8''"
  by code_simp

end
